theory Spec2Isabelle
  imports Main "HOL-Library.Word" "HOL-Library.Sublist"
begin

section \<open>Strings of the scaffolding script\<close>

text \<open>
  The script \<^verbatim>\<open>bin/vite-ts-tw.js\<close> works on JavaScript strings, which are sequences of
  16-bit code units. A string is therefore a list of 16-bit words; \<open>js\<close> writes an ASCII
  literal of the source as such a list.
\<close>

type_synonym jschar = "16 word"
type_synonym jsstring = "jschar list"

definition js :: "string \<Rightarrow> jsstring" where
  "js s = map (\<lambda>c. of_nat (of_char c)) s"

text \<open>
  \<^verbatim>\<open>String.prototype.replace\<close> with a regular expression that has no \<^verbatim>\<open>g\<close> flag and
  matches one literal text: the leftmost occurrence of \<open>p\<close> is replaced by \<open>r\<close>, and a
  string without an occurrence is returned as it is. (The replacement text used by the
  script contains no \<^verbatim>\<open>$\<close>, so it is inserted literally.)
\<close>

fun replace_js :: "'a list \<Rightarrow> 'a list \<Rightarrow> 'a list \<Rightarrow> 'a list" where
  "replace_js p r [] = (if p = [] then r else [])"
| "replace_js p r (x # xs) =
     (if prefix p (x # xs) then r @ drop (length p) (x # xs)
      else x # replace_js p r xs)"

text \<open>Whether, and how often, a text occurs inside a string (at any position).\<close>

fun occurs :: "'a list \<Rightarrow> 'a list \<Rightarrow> bool" where
  "occurs p [] = (p = [])"
| "occurs p (x # xs) = (prefix p (x # xs) \<or> occurs p xs)"

fun occurrences :: "'a list \<Rightarrow> 'a list \<Rightarrow> nat" where
  "occurrences p [] = (if p = [] then 1 else 0)"
| "occurrences p (x # xs) = (if prefix p (x # xs) then 1 else 0) + occurrences p xs"

text \<open>
  \<^verbatim>\<open>String.prototype.trim\<close> removes the WhiteSpace and LineTerminator code points of
  ECMAScript from both ends: TAB, LF, VT, FF, CR, SPACE, NBSP, U+1680, U+2000 to U+200A,
  U+2028, U+2029, U+202F, U+205F, U+3000 and U+FEFF.
\<close>

definition is_ws :: "jschar \<Rightarrow> bool" where
  "is_ws c \<longleftrightarrow>
     c = 0x09 \<or> c = 0x0A \<or> c = 0x0B \<or> c = 0x0C \<or> c = 0x0D \<or> c = 0x20 \<or> c = 0xA0 \<or>
     c = 0x1680 \<or> (0x2000 \<le> c \<and> c \<le> 0x200A) \<or> c = 0x2028 \<or> c = 0x2029 \<or>
     c = 0x202F \<or> c = 0x205F \<or> c = 0x3000 \<or> c = 0xFEFF"

definition trim :: "jsstring \<Rightarrow> jsstring" where
  "trim s = rev (dropWhile is_ws (rev (dropWhile is_ws s)))"

text \<open>
  \<^verbatim>\<open>String.prototype.toLowerCase\<close>. The letters A to Z are mapped to a to z; the Unicode
  case tables for code points beyond ASCII are not part of the script and those code
  units are kept. The script compares the result with the ASCII text \<^verbatim>\<open>"y"\<close> only, and
  U+0059 is the one code point whose lowercase form is U+0079.
\<close>

definition lower_unit :: "jschar \<Rightarrow> jschar" where
  "lower_unit c = (if 0x41 \<le> c \<and> c \<le> 0x5A then c + 0x20 else c)"

definition toLowerCase :: "jsstring \<Rightarrow> jsstring" where
  "toLowerCase s = map lower_unit s"

section \<open>The outside world\<close>

text \<open>
  What the script cannot decide by itself is read from an environment: the first
  positional argument (\<^verbatim>\<open>process.argv[2]\<close>, \<open>None\<close> when it is \<^verbatim>\<open>undefined\<close>), whether
  \<^verbatim>\<open>execSync\<close> of a command line returns or throws, what \<^verbatim>\<open>fs.readFileSync\<close> returns for a
  path (\<open>None\<close> when it throws), whether \<^verbatim>\<open>fs.writeFileSync\<close> to a path returns, and
  the line the user enters at the prompt.
\<close>

record env =
  argv2 :: "jsstring option"
  execSync_ok :: "jsstring \<Rightarrow> bool"
  readFileSync :: "jsstring \<Rightarrow> jsstring option"
  writeFileSync_ok :: "jsstring \<Rightarrow> bool"
  answer :: jsstring

text \<open>The fixed texts the script prints, named after what they say.\<close>

datatype out_msg =
    PleaseEnterDirName
  | CreatingProject
  | ProjectCreated
  | InstalledTailwind
  | InitializedTailwind
  | UpdatedTailwindConfig
  | UpdatedIndexCss
  | EmptyLine
  | SkippedGit
  | InitializedGit
  | ChangedBranch
  | InstalledDependencies
  | BlankLines
  | AsciiArt
  | SuccessBanner

datatype err_msg =
    FailedToExecute jsstring
  | FailedCreateProject
  | FailedInstallTailwind
  | FailedInitTailwind
  | ErrorUpdatingConfig
  | ErrorUpdatingIndexCss
  | FailedInitGit
  | FailedChangeBranch
  | FailedInstallDependencies

text \<open>
  Every effect of a run is recorded, in order: a command handed to \<^verbatim>\<open>execSync\<close>, a line on
  \<^verbatim>\<open>console.log\<close> or \<^verbatim>\<open>console.error\<close>, a call of \<^verbatim>\<open>readFileSync\<close> or \<^verbatim>\<open>writeFileSync\<close>
  (with the content handed over), and the three calls on the readline interface.
\<close>

datatype event =
    Exec jsstring
  | Stdout out_msg
  | Stderr err_msg
  | ReadFile jsstring
  | WriteFile jsstring jsstring
  | CreateInterface
  | Question
  | RlClose

text \<open>
  A function of the script either reaches \<^verbatim>\<open>process.exit(n)\<close>, which ends the whole run,
  or returns to its caller.
\<close>

datatype outcome = Exited int | Returned

type_synonym result = "event list \<times> outcome"

fun execs :: "event list \<Rightarrow> jsstring list" where
  "execs [] = []"
| "execs (Exec c # es) = c # execs es"
| "execs (_ # es) = execs es"

fun file_ops :: "event list \<Rightarrow> event list" where
  "file_ops [] = []"
| "file_ops (ReadFile p # es) = ReadFile p # file_ops es"
| "file_ops (WriteFile p c # es) = WriteFile p c # file_ops es"
| "file_ops (_ # es) = file_ops es"

text \<open>The contents handed to \<^verbatim>\<open>writeFileSync\<close> for one path, in order.\<close>

fun written :: "jsstring \<Rightarrow> event list \<Rightarrow> jsstring list" where
  "written p [] = []"
| "written p (WriteFile q c # es) = (if q = p then c # written p es else written p es)"
| "written p (_ # es) = written p es"

fun prompts :: "event list \<Rightarrow> nat" where
  "prompts [] = 0"
| "prompts (Question # es) = Suc (prompts es)"
| "prompts (_ # es) = prompts es"

section \<open>The script\<close>

datatype command = INSTALL_VITE_TS | INSTALL_TAILWIND | INITIALIZE_TAILWIND
  | INITIALIZE_GIT | CHANGE_BRANCH | INSTALL_DEPENDENCIES

fun RUN_COMMAND :: "jsstring \<Rightarrow> command \<Rightarrow> jsstring" where
  "RUN_COMMAND d INSTALL_VITE_TS =
     js ''npm init vite@latest '' @ d @ js '' -- --template react-ts''"
| "RUN_COMMAND d INSTALL_TAILWIND =
     js ''cd '' @ d @ js '' && npm install -D tailwindcss postcss autoprefixer''"
| "RUN_COMMAND d INITIALIZE_TAILWIND =
     js ''cd '' @ d @ js '' && npx tailwindcss init -p --ts''"
| "RUN_COMMAND d INITIALIZE_GIT = js ''cd '' @ d @ js '' && git init''"
| "RUN_COMMAND d CHANGE_BRANCH = js ''cd '' @ d @ js '' && git branch -M main''"
| "RUN_COMMAND d INSTALL_DEPENDENCIES = js ''cd '' @ d @ js '' && npm install''"

definition execCommand :: "env \<Rightarrow> jsstring \<Rightarrow> event list \<Rightarrow> bool \<times> event list" where
  "execCommand e c tr =
     (if execSync_ok e c then (True, tr @ [Exec c])
      else (False, tr @ [Exec c, Stderr (FailedToExecute c)]))"

definition continueSetup :: "env \<Rightarrow> jsstring \<Rightarrow> event list \<Rightarrow> result" where
  "continueSetup e d tr =
     (let (ok, tr1) = execCommand e (RUN_COMMAND d INSTALL_DEPENDENCIES) tr;
          tr2 = tr1 @ [if \<not> ok then Stderr FailedInstallDependencies
                       else Stdout InstalledDependencies]
      in (tr2 @ [Stdout BlankLines, Stdout AsciiArt, Stdout SuccessBanner], Exited 0))"

definition executeGitInitialization :: "env \<Rightarrow> jsstring \<Rightarrow> event list \<Rightarrow> result" where
  "executeGitInitialization e d tr =
     (let (ok, tr1) = execCommand e (RUN_COMMAND d INITIALIZE_GIT) tr
      in if \<not> ok then (tr1 @ [Stderr FailedInitGit], Exited (- 1))
         else
           let tr2 = tr1 @ [Stdout InitializedGit];
               (ok', tr3) = execCommand e (RUN_COMMAND d CHANGE_BRANCH) tr2
           in if \<not> ok' then (tr3 @ [Stderr FailedChangeBranch], Returned)
              else continueSetup e d (tr3 @ [Stdout ChangedBranch]))"

definition shouldInitializeGit :: "jsstring \<Rightarrow> bool" where
  "shouldInitializeGit a \<longleftrightarrow> toLowerCase (trim a) = js ''y'' \<or> trim a = js ''''"

definition promptUser :: "env \<Rightarrow> jsstring \<Rightarrow> event list \<Rightarrow> result" where
  "promptUser e d tr =
     (let tr1 = tr @ [Stdout EmptyLine, Question];
          tr2 = tr1 @ [RlClose]
      in if shouldInitializeGit (answer e) then executeGitInitialization e d tr2
         else continueSetup e d (tr2 @ [Stdout SkippedGit]))"

definition index_css_path :: "jsstring \<Rightarrow> jsstring" where
  "index_css_path d = d @ js ''/src/index.css''"

definition tailwind_directives :: jsstring where
  \<open>tailwind_directives =
     js ''@import 'tailwindcss/base';\<newline>@import 'tailwindcss/components';\<newline>@import 'tailwindcss/utilities';\<newline>\<newline>''\<close>

text \<open>The new content of the stylesheet: the directives, then what the file held.\<close>

definition updatedContent_css :: "jsstring \<Rightarrow> jsstring" where
  "updatedContent_css data = tailwind_directives @ data"

definition updateIndexCss ::
  "env \<Rightarrow> jsstring \<Rightarrow> (event list \<Rightarrow> result) option \<Rightarrow> event list \<Rightarrow> result" where
  "updateIndexCss e d callback tr =
     (let p = index_css_path d; tr1 = tr @ [ReadFile p]
      in case readFileSync e p of
           None \<Rightarrow> (tr1 @ [Stderr ErrorUpdatingIndexCss], Exited (- 1))
         | Some data \<Rightarrow>
             let updatedContent = updatedContent_css data;
                 tr2 = tr1 @ [WriteFile p updatedContent]
             in if \<not> writeFileSync_ok e p
                then (tr2 @ [Stderr ErrorUpdatingIndexCss], Exited (- 1))
                else
                  let tr3 = tr2 @ [Stdout UpdatedIndexCss]
                  in (case callback of Some k \<Rightarrow> k tr3 | None \<Rightarrow> (tr3, Returned)))"

definition config_path :: "jsstring \<Rightarrow> jsstring" where
  "config_path d = d @ js ''/tailwind.config.ts''"

definition content_pattern :: jsstring where
  "content_pattern = js ''content: []''"

definition content_replacement :: jsstring where
  \<open>content_replacement = js ''content: ["./index.html", "./src/**/*.{js,ts,jsx,tsx}"]''\<close>

text \<open>The new content of the configuration file: \<^verbatim>\<open>data.replace(/content: \[\]/, ...)\<close>.\<close>

definition updatedContent_config :: "jsstring \<Rightarrow> jsstring" where
  "updatedContent_config data = replace_js content_pattern content_replacement data"

definition updateTailwindConfig ::
  "env \<Rightarrow> jsstring \<Rightarrow> (event list \<Rightarrow> result) option \<Rightarrow> event list \<Rightarrow> result" where
  "updateTailwindConfig e d callback tr =
     (let p = config_path d; tr1 = tr @ [ReadFile p]
      in case readFileSync e p of
           None \<Rightarrow> (tr1 @ [Stderr ErrorUpdatingConfig], Exited (- 1))
         | Some data \<Rightarrow>
             let updatedContent = updatedContent_config data;
                 tr2 = tr1 @ [WriteFile p updatedContent]
             in if \<not> writeFileSync_ok e p
                then (tr2 @ [Stderr ErrorUpdatingConfig], Exited (- 1))
                else updateIndexCss e d callback (tr2 @ [Stdout UpdatedTailwindConfig]))"

definition executeTailwindInitialization ::
  "env \<Rightarrow> jsstring \<Rightarrow> (event list \<Rightarrow> result) option \<Rightarrow> event list \<Rightarrow> result" where
  "executeTailwindInitialization e d callback tr =
     (let (ok, tr1) = execCommand e (RUN_COMMAND d INITIALIZE_TAILWIND) tr
      in if \<not> ok then (tr1 @ [Stderr FailedInitTailwind], Exited (- 1))
         else updateTailwindConfig e d callback (tr1 @ [Stdout InitializedTailwind]))"

text \<open>
  The top level of the script. \<^verbatim>\<open>!enteredDirName\<close> holds for \<^verbatim>\<open>undefined\<close> and for the
  empty string.
\<close>

definition main :: "env \<Rightarrow> result" where
  "main e =
     (case argv2 e of
        None \<Rightarrow> ([Stdout PleaseEnterDirName], Exited (- 1))
      | Some d \<Rightarrow>
          if d = [] then ([Stdout PleaseEnterDirName], Exited (- 1))
          else
            let tr0 = [CreateInterface, Stdout CreatingProject];
                (ok1, tr1) = execCommand e (RUN_COMMAND d INSTALL_VITE_TS) tr0;
                tr2 = tr1 @ [if \<not> ok1 then Stderr FailedCreateProject
                             else Stdout ProjectCreated];
                (ok2, tr3) = execCommand e (RUN_COMMAND d INSTALL_TAILWIND) tr2;
                tr4 = tr3 @ [if \<not> ok2 then Stderr FailedInstallTailwind
                             else Stdout InstalledTailwind]
            in executeTailwindInitialization e d (Some (promptUser e d)) tr4)"

text \<open>
  The exit status of a run: the argument of \<^verbatim>\<open>process.exit\<close>, or 0 when the script
  returns and the process ends by itself.
\<close>

fun exit_status :: "outcome \<Rightarrow> int" where
  "exit_status (Exited n) = n"
| "exit_status Returned = 0"

section \<open>Notions used to state the properties\<close>

text \<open>Both file patches go through: every read and every write of the two files succeeds.\<close>

definition patches_succeed :: "env \<Rightarrow> jsstring \<Rightarrow> bool" where
  "patches_succeed e d \<longleftrightarrow>
     readFileSync e (config_path d) \<noteq> None \<and> writeFileSync_ok e (config_path d) \<and>
     readFileSync e (index_css_path d) \<noteq> None \<and> writeFileSync_ok e (index_css_path d)"

text \<open>
  The conditions under which a run ends with \<^verbatim>\<open>process.exit(-1)\<close>: no directory name, a
  failing styling-config command, a failing file patch, or a failing \<^verbatim>\<open>git init\<close> after the
  user asked for it.
\<close>

definition fatal_condition :: "env \<Rightarrow> bool" where
  "fatal_condition e \<longleftrightarrow>
     (case argv2 e of
        None \<Rightarrow> True
      | Some d \<Rightarrow>
          d = [] \<or> \<not> execSync_ok e (RUN_COMMAND d INITIALIZE_TAILWIND) \<or>
          \<not> patches_succeed e d \<or>
          (shouldInitializeGit (answer e) \<and> \<not> execSync_ok e (RUN_COMMAND d INITIALIZE_GIT)))"

text \<open>The branch rename is asked for and fails.\<close>

definition rename_attempt_fails :: "env \<Rightarrow> bool" where
  "rename_attempt_fails e \<longleftrightarrow>
     (case argv2 e of
        None \<Rightarrow> False
      | Some d \<Rightarrow>
          shouldInitializeGit (answer e) \<and> \<not> execSync_ok e (RUN_COMMAND d CHANGE_BRANCH))"

text \<open>
  A small world for concrete runs: the two generated files exist and can be written; the
  argument, the commands that succeed and the reply at the prompt are chosen per run.
\<close>

definition sample_config :: jsstring where
  "sample_config = js ''export default { content: [], theme: {} }''"

definition sample_files :: "jsstring \<Rightarrow> jsstring option" where
  "sample_files p =
     (if p = config_path (js ''app'') then Some sample_config
      else if p = index_css_path (js ''app'') then Some (js ''body{}'')
      else None)"

definition sample_env :: "jsstring option \<Rightarrow> (jsstring \<Rightarrow> bool) \<Rightarrow> jsstring \<Rightarrow> env" where
  "sample_env a ok r =
     \<lparr>argv2 = a, execSync_ok = ok, readFileSync = sample_files,
      writeFileSync_ok = (\<lambda>p. True), answer = r\<rparr>"

text \<open>Every command succeeds but the one given.\<close>

definition all_but :: "jsstring \<Rightarrow> jsstring \<Rightarrow> bool" where
  "all_but c c' \<longleftrightarrow> c' \<noteq> c"

section \<open>Facts about the string operations\<close>

lemma occurrences_zero_iff: "occurrences p s = 0 \<longleftrightarrow> \<not> occurs p s"
  by (induction s) auto

lemma occurs_length: "occurs p s \<Longrightarrow> length p \<le> length s"
  by (induction s) (auto dest: prefix_length_le)

lemma replace_js_no_occurrence: "\<not> occurs p s \<Longrightarrow> replace_js p r s = s"
  by (induction s) auto

lemma occurs_drop: "occurs p (drop n s) \<Longrightarrow> occurs p s"
proof (induction s arbitrary: n)
  case Nil
  then show ?case by simp
next
  case (Cons x xs)
  then show ?case by (cases n) auto
qed

lemma prefix_shorter_part:
  "prefix p (xs @ ys) \<Longrightarrow> length p \<le> length xs \<Longrightarrow> prefix p xs"
  by (auto simp: prefix_append)

text \<open>
  The leftmost occurrence: the text is \<open>pre @ p @ post\<close> and \<open>p\<close> does not occur earlier,
  that is, not inside \<open>pre @ butlast p\<close>.
\<close>

lemma replace_js_first:
  assumes "p \<noteq> []" and "\<not> occurs p (pre @ butlast p)"
  shows "replace_js p r (pre @ p @ post) = pre @ r @ post"
  using assms(2)
proof (induction pre)
  case Nil
  from assms(1) obtain x p' where p: "p = x # p'" by (cases p) auto
  have "prefix p (p @ post)" by simp
  then show ?case unfolding p by simp
next
  case (Cons a pre)
  have split: "a # pre @ p @ post = (a # pre @ butlast p) @ last p # post"
    using assms(1) by simp
  have "\<not> prefix p (a # pre @ butlast p)" and no: "\<not> occurs p (pre @ butlast p)"
    using Cons.prems by auto
  then have "\<not> prefix p (a # pre @ p @ post)"
    using prefix_shorter_part [of p "a # pre @ butlast p" "last p # post"] assms(1)
    unfolding split by (auto simp: Suc_leI)
  with Cons.IH [OF no] show ?case by simp
qed

lemma first_occurrence_exists:
  assumes "p \<noteq> []"
  shows "occurs p s \<Longrightarrow> \<exists>pre post. s = pre @ p @ post \<and> \<not> occurs p (pre @ butlast p)"
proof (induction s)
  case Nil
  with assms show ?case by simp
next
  case (Cons x xs)
  show ?case
  proof (cases "prefix p (x # xs)")
    case True
    then obtain post where "x # xs = [] @ p @ post"
      by (auto simp: prefix_def)
    moreover have "\<not> occurs p ([] @ butlast p)"
      using assms occurs_length [of p "butlast p"] by (cases p) auto
    ultimately show ?thesis by blast
  next
    case False
    with Cons.prems have "occurs p xs" by simp
    then obtain pre post where xs: "xs = pre @ p @ post"
      and no: "\<not> occurs p (pre @ butlast p)"
      using Cons.IH by blast
    have "prefix (x # pre @ butlast p) (x # pre @ p @ post)"
      using assms by (metis Cons_prefix_Cons append_butlast_last_id append.assoc
          prefixI same_prefix_prefix)
    then have "\<not> prefix p (x # pre @ butlast p)"
      using False xs prefix_order.trans by blast
    with no have "\<not> occurs p ((x # pre) @ butlast p)" by simp
    moreover have "x # xs = (x # pre) @ p @ post" using xs by simp
    ultimately show ?thesis by blast
  qed
qed

lemma lower_unit_y: "lower_unit c = 0x79 \<longleftrightarrow> c = 0x79 \<or> c = 0x59"
  unfolding lower_unit_def by (auto; unat_arith)

lemma toLowerCase_y: "toLowerCase s = js ''y'' \<longleftrightarrow> s = js ''y'' \<or> s = js ''Y''"
proof -
  have "toLowerCase s = js ''y'' \<longleftrightarrow> (\<exists>c. s = [c] \<and> lower_unit c = 0x79)"
    by (cases s) (auto simp: toLowerCase_def js_def)
  then show ?thesis by (auto simp: lower_unit_y js_def)
qed

lemma trim_all_ws:
  assumes "\<forall>c\<in>set r. is_ws c"
  shows "trim r = []"
  using assms by (auto simp: trim_def dest: set_dropWhileD)

lemma trim_padded:
  assumes "\<forall>c\<in>set a. is_ws c" and "\<forall>c\<in>set b. is_ws c" and "\<not> is_ws y"
  shows "trim (a @ [y] @ b) = [y]"
proof -
  have "dropWhile is_ws (a @ [y] @ b) = y # b"
    using assms(1,3) by (simp add: dropWhile_append3)
  moreover have "dropWhile is_ws (rev b @ [y]) = [y]"
    using assms(2,3) by (simp add: dropWhile_append3)
  ultimately show ?thesis by (simp add: trim_def)
qed

lemma shouldInitializeGit_iff:
  "shouldInitializeGit r \<longleftrightarrow> trim r = js '''' \<or> trim r = js ''y'' \<or> trim r = js ''Y''"
  by (auto simp: shouldInitializeGit_def toLowerCase_y)

subsection \<open>The pattern and its replacement\<close>

lemma pattern_length: "length content_pattern = 11"
  by (simp add: content_pattern_def js_def)

lemma pattern_nonempty: "content_pattern \<noteq> []"
  by (simp add: content_pattern_def js_def)

lemma replacement_length: "length content_replacement = 55"
  by (simp add: content_replacement_def js_def)

lemma replacement_agrees: "take 10 content_replacement = take 10 content_pattern"
  by (simp add: content_pattern_def content_replacement_def js_def)

text \<open>The first ten code units of a text are not changed by the replacement.\<close>

lemma take_replace:
  "n \<le> 10 \<Longrightarrow> take n (replace_js content_pattern content_replacement s) = take n s"
proof (induction s arbitrary: n)
  case Nil
  then show ?case by (simp add: pattern_nonempty)
next
  case (Cons x xs)
  show ?case
  proof (cases "prefix content_pattern (x # xs)")
    case True
    then obtain post where s: "x # xs = content_pattern @ post"
      by (auto simp: prefix_def)
    have "take n (content_replacement @ drop 11 (x # xs)) = take n content_replacement"
      using Cons.prems by (simp add: replacement_length)
    also have "\<dots> = take n (take 10 content_replacement)"
      using Cons.prems by (simp add: min_def)
    also have "\<dots> = take n (take 10 content_pattern)"
      by (simp only: replacement_agrees)
    also have "\<dots> = take n content_pattern"
      using Cons.prems by (simp add: min_def)
    also have "\<dots> = take n (x # xs)"
      unfolding s using Cons.prems by (simp add: pattern_length)
    finally show ?thesis using True by (simp add: pattern_length)
  next
    case False
    then show ?thesis using Cons by (cases n) auto
  qed
qed

lemma prefix_pattern_replace:
  assumes "prefix content_pattern (x # replace_js content_pattern content_replacement xs)"
  shows "prefix content_pattern (x # xs)"
proof -
  obtain c p' where p: "content_pattern = c # p'" and l: "length p' = 10"
    by (simp add: content_pattern_def js_def)
  from assms have "c = x" and "prefix p' (replace_js content_pattern content_replacement xs)"
    unfolding p by auto
  then have "take 10 (replace_js content_pattern content_replacement xs) = p'"
    using l by (auto simp: prefix_def)
  then have "take 10 xs = p'" by (simp add: take_replace)
  then have "prefix p' xs" by (metis take_is_prefix)
  with \<open>c = x\<close> show ?thesis unfolding p by simp
qed

text \<open>No occurrence of the pattern starts inside the replacement text.\<close>

lemma no_match_in_replacement:
  "\<not> occurs content_pattern post \<Longrightarrow> \<not> occurs content_pattern (content_replacement @ post)"
  by (simp add: content_pattern_def content_replacement_def js_def)

lemma replace_removes_single:
  "occurrences content_pattern s \<le> 1 \<Longrightarrow>
     \<not> occurs content_pattern (replace_js content_pattern content_replacement s)"
proof (induction s)
  case Nil
  then show ?case by (simp add: pattern_nonempty)
next
  case (Cons x xs)
  show ?case
  proof (cases "prefix content_pattern (x # xs)")
    case True
    with Cons.prems have "occurrences content_pattern xs = 0" by simp
    then have "\<not> occurs content_pattern xs" by (simp add: occurrences_zero_iff)
    then have "\<not> occurs content_pattern (drop 10 xs)" using occurs_drop by blast
    then have "\<not> occurs content_pattern (content_replacement @ drop 10 xs)"
      by (rule no_match_in_replacement)
    with True show ?thesis by (simp add: pattern_length)
  next
    case False
    with Cons.prems have "occurrences content_pattern xs \<le> 1" by simp
    then have "\<not> occurs content_pattern (replace_js content_pattern content_replacement xs)"
      by (rule Cons.IH)
    moreover have
      "\<not> prefix content_pattern (x # replace_js content_pattern content_replacement xs)"
      using False prefix_pattern_replace by blast
    ultimately show ?thesis using False by simp
  qed
qed

lemma paths_differ: "index_css_path d \<noteq> config_path d"
  by (simp add: index_css_path_def config_path_def js_def)

section \<open>Facts about the functions of the script\<close>

lemma prompts_append: "prompts (xs @ ys) = prompts xs + prompts ys"
  by (induction xs rule: prompts.induct) simp_all

lemma execs_append: "execs (xs @ ys) = execs xs @ execs ys"
  by (induction xs rule: execs.induct) simp_all

lemma file_ops_append: "file_ops (xs @ ys) = file_ops xs @ file_ops ys"
  by (induction xs rule: file_ops.induct) simp_all

lemma written_append: "written p (xs @ ys) = written p xs @ written p ys"
  by (induction p xs rule: written.induct) simp_all

subsection \<open>How a run ends\<close>

lemma continueSetup_outcome: "snd (continueSetup e d tr) = Exited 0"
  by (simp add: continueSetup_def execCommand_def Let_def)

lemma executeGitInitialization_outcome:
  "snd (executeGitInitialization e d tr) =
     (if \<not> execSync_ok e (RUN_COMMAND d INITIALIZE_GIT) then Exited (- 1)
      else if \<not> execSync_ok e (RUN_COMMAND d CHANGE_BRANCH) then Returned
      else Exited 0)"
  by (simp add: executeGitInitialization_def execCommand_def Let_def continueSetup_outcome)

lemma promptUser_outcome:
  "snd (promptUser e d tr) =
     (if shouldInitializeGit (answer e) then snd (executeGitInitialization e d [])
      else Exited 0)"
  by (simp add: promptUser_def Let_def continueSetup_outcome executeGitInitialization_outcome)

lemma updateIndexCss_outcome:
  "snd (updateIndexCss e d (Some (promptUser e d)) tr) =
     (if readFileSync e (index_css_path d) = None \<or> \<not> writeFileSync_ok e (index_css_path d)
      then Exited (- 1) else snd (promptUser e d []))"
  by (simp add: updateIndexCss_def Let_def promptUser_outcome split: option.split)

lemma updateTailwindConfig_outcome:
  "snd (updateTailwindConfig e d (Some (promptUser e d)) tr) =
     (if \<not> patches_succeed e d then Exited (- 1) else snd (promptUser e d []))"
  by (simp add: updateTailwindConfig_def Let_def updateIndexCss_outcome patches_succeed_def
      split: option.split)

lemma executeTailwindInitialization_outcome:
  "snd (executeTailwindInitialization e d (Some (promptUser e d)) tr) =
     (if \<not> execSync_ok e (RUN_COMMAND d INITIALIZE_TAILWIND) \<or> \<not> patches_succeed e d
      then Exited (- 1) else snd (promptUser e d []))"
  by (simp add: executeTailwindInitialization_def execCommand_def Let_def
      updateTailwindConfig_outcome)

lemma main_outcome:
  "snd (main e) =
     (case argv2 e of
        None \<Rightarrow> Exited (- 1)
      | Some d \<Rightarrow>
          if d = [] \<or> \<not> execSync_ok e (RUN_COMMAND d INITIALIZE_TAILWIND) \<or>
             \<not> patches_succeed e d
          then Exited (- 1) else snd (promptUser e d []))"
  by (simp add: main_def execCommand_def Let_def executeTailwindInitialization_outcome
      split: option.split)

subsection \<open>The completion banner\<close>

lemma continueSetup_trace:
  "last (fst (continueSetup e d tr)) = Stdout SuccessBanner"
  "Stdout SuccessBanner \<in> set (fst (continueSetup e d tr))"
  "prompts (fst (continueSetup e d tr)) = prompts tr"
  "written p (fst (continueSetup e d tr)) = written p tr"
  by (simp_all add: continueSetup_def execCommand_def Let_def prompts_append written_append)

lemma executeGitInitialization_banner:
  "Stdout SuccessBanner \<in> set (fst (executeGitInitialization e d tr)) \<longleftrightarrow>
     Stdout SuccessBanner \<in> set tr \<or> snd (executeGitInitialization e d tr) = Exited 0"
  by (simp add: executeGitInitialization_def execCommand_def Let_def continueSetup_outcome
      continueSetup_trace)

lemma executeGitInitialization_last:
  "snd (executeGitInitialization e d tr) = Exited 0 \<Longrightarrow>
     last (fst (executeGitInitialization e d tr)) = Stdout SuccessBanner"
  by (simp add: executeGitInitialization_def execCommand_def Let_def continueSetup_trace
      split: if_splits)

lemma promptUser_banner:
  "Stdout SuccessBanner \<in> set (fst (promptUser e d tr)) \<longleftrightarrow>
     Stdout SuccessBanner \<in> set tr \<or> snd (promptUser e d tr) = Exited 0"
  by (simp add: promptUser_def Let_def executeGitInitialization_banner continueSetup_trace
      continueSetup_outcome)

lemma promptUser_last:
  "snd (promptUser e d tr) = Exited 0 \<Longrightarrow> last (fst (promptUser e d tr)) = Stdout SuccessBanner"
  by (simp add: promptUser_def Let_def executeGitInitialization_last continueSetup_trace
      split: if_splits)

lemma updateIndexCss_banner:
  "Stdout SuccessBanner \<in> set (fst (updateIndexCss e d (Some (promptUser e d)) tr)) \<longleftrightarrow>
     Stdout SuccessBanner \<in> set tr \<or>
     snd (updateIndexCss e d (Some (promptUser e d)) tr) = Exited 0"
  by (simp add: updateIndexCss_def Let_def promptUser_banner split: option.split)

lemma updateIndexCss_last:
  "snd (updateIndexCss e d (Some (promptUser e d)) tr) = Exited 0 \<Longrightarrow>
     last (fst (updateIndexCss e d (Some (promptUser e d)) tr)) = Stdout SuccessBanner"
  by (simp add: updateIndexCss_def Let_def promptUser_last split: option.splits if_splits)

lemma updateTailwindConfig_banner:
  "Stdout SuccessBanner \<in> set (fst (updateTailwindConfig e d (Some (promptUser e d)) tr)) \<longleftrightarrow>
     Stdout SuccessBanner \<in> set tr \<or>
     snd (updateTailwindConfig e d (Some (promptUser e d)) tr) = Exited 0"
  by (simp add: updateTailwindConfig_def Let_def updateIndexCss_banner split: option.split)

lemma updateTailwindConfig_last:
  "snd (updateTailwindConfig e d (Some (promptUser e d)) tr) = Exited 0 \<Longrightarrow>
     last (fst (updateTailwindConfig e d (Some (promptUser e d)) tr)) = Stdout SuccessBanner"
  by (simp add: updateTailwindConfig_def Let_def updateIndexCss_last
      split: option.splits if_splits)

lemma executeTailwindInitialization_banner:
  "Stdout SuccessBanner
     \<in> set (fst (executeTailwindInitialization e d (Some (promptUser e d)) tr)) \<longleftrightarrow>
     Stdout SuccessBanner \<in> set tr \<or>
     snd (executeTailwindInitialization e d (Some (promptUser e d)) tr) = Exited 0"
  by (simp add: executeTailwindInitialization_def execCommand_def Let_def
      updateTailwindConfig_banner)

lemma executeTailwindInitialization_last:
  "snd (executeTailwindInitialization e d (Some (promptUser e d)) tr) = Exited 0 \<Longrightarrow>
     last (fst (executeTailwindInitialization e d (Some (promptUser e d)) tr)) =
       Stdout SuccessBanner"
  by (simp add: executeTailwindInitialization_def execCommand_def Let_def
      updateTailwindConfig_last split: if_splits)

lemma main_banner:
  "Stdout SuccessBanner \<in> set (fst (main e)) \<longleftrightarrow> snd (main e) = Exited 0"
  by (simp add: main_def execCommand_def Let_def executeTailwindInitialization_banner
      split: option.split)

lemma main_last:
  "snd (main e) = Exited 0 \<Longrightarrow> last (fst (main e)) = Stdout SuccessBanner"
  by (auto simp add: main_def execCommand_def Let_def executeTailwindInitialization_last
      split: option.splits if_splits)

subsection \<open>The prompt is issued at most once\<close>

lemma executeGitInitialization_prompts:
  "prompts (fst (executeGitInitialization e d tr)) = prompts tr"
  by (simp add: executeGitInitialization_def execCommand_def Let_def continueSetup_trace
      prompts_append)

lemma promptUser_prompts: "prompts (fst (promptUser e d tr)) = Suc (prompts tr)"
  by (simp add: promptUser_def Let_def executeGitInitialization_prompts continueSetup_trace
      prompts_append)

lemma updateIndexCss_prompts:
  "prompts (fst (updateIndexCss e d (Some (promptUser e d)) tr)) \<le> Suc (prompts tr)"
  by (simp add: updateIndexCss_def Let_def promptUser_prompts prompts_append split: option.split)

lemma updateTailwindConfig_prompts:
  "prompts (fst (updateTailwindConfig e d (Some (promptUser e d)) tr)) \<le> Suc (prompts tr)"
proof (cases "readFileSync e (config_path d)")
  case None
  then show ?thesis by (simp add: updateTailwindConfig_def Let_def prompts_append)
next
  case (Some data)
  let ?tr = "tr @ [ReadFile (config_path d),
    WriteFile (config_path d) (updatedContent_config data), Stdout UpdatedTailwindConfig]"
  have "prompts ?tr = prompts tr" by (simp add: prompts_append)
  with updateIndexCss_prompts [of e d ?tr] Some show ?thesis
    by (simp add: updateTailwindConfig_def Let_def prompts_append)
qed

lemma executeTailwindInitialization_prompts:
  "prompts (fst (executeTailwindInitialization e d (Some (promptUser e d)) tr))
     \<le> Suc (prompts tr)"
  using updateTailwindConfig_prompts [of e d
      "tr @ [Exec (RUN_COMMAND d INITIALIZE_TAILWIND), Stdout InitializedTailwind]"]
  by (auto simp add: executeTailwindInitialization_def execCommand_def Let_def prompts_append)

lemma main_prompts: "prompts (fst (main e)) \<le> 1"
proof (cases "argv2 e")
  case None
  then show ?thesis by (simp add: main_def)
next
  case (Some d)
  show ?thesis
  proof (cases "d = []")
    case True
    with Some show ?thesis by (simp add: main_def)
  next
    case False
    let ?tr = "snd (execCommand e (RUN_COMMAND d INSTALL_TAILWIND)
         (snd (execCommand e (RUN_COMMAND d INSTALL_VITE_TS)
                [CreateInterface, Stdout CreatingProject])
          @ [if \<not> execSync_ok e (RUN_COMMAND d INSTALL_VITE_TS) then Stderr FailedCreateProject
             else Stdout ProjectCreated]))
        @ [if \<not> execSync_ok e (RUN_COMMAND d INSTALL_TAILWIND) then Stderr FailedInstallTailwind
           else Stdout InstalledTailwind]"
    have m: "main e = executeTailwindInitialization e d (Some (promptUser e d)) ?tr"
      using Some False by (simp add: main_def execCommand_def Let_def)
    have "prompts ?tr = 0"
      by (simp add: execCommand_def prompts_append)
    with executeTailwindInitialization_prompts [of e d ?tr] m show ?thesis by simp
  qed
qed

subsection \<open>What is written to the two files\<close>

lemma executeGitInitialization_written:
  "written p (fst (executeGitInitialization e d tr)) = written p tr"
  by (simp add: executeGitInitialization_def execCommand_def Let_def continueSetup_trace
      written_append)

lemma promptUser_written: "written p (fst (promptUser e d tr)) = written p tr"
  by (simp add: promptUser_def Let_def executeGitInitialization_written continueSetup_trace
      written_append)

lemma updateIndexCss_written_other:
  "p \<noteq> index_css_path d \<Longrightarrow>
     written p (fst (updateIndexCss e d (Some (promptUser e d)) tr)) = written p tr"
  by (simp add: updateIndexCss_def Let_def promptUser_written written_append
      split: option.split)

lemma updateIndexCss_written:
  "readFileSync e (index_css_path d) = Some data \<Longrightarrow>
     written (index_css_path d) (fst (updateIndexCss e d (Some (promptUser e d)) tr)) =
       written (index_css_path d) tr @ [updatedContent_css data]"
  by (simp add: updateIndexCss_def Let_def promptUser_written written_append)

lemma updateTailwindConfig_written:
  "readFileSync e (config_path d) = Some data \<Longrightarrow>
     written (config_path d) (fst (updateTailwindConfig e d (Some (promptUser e d)) tr)) =
       written (config_path d) tr @ [updatedContent_config data]"
  using paths_differ [of d]
  by (simp add: updateTailwindConfig_def Let_def updateIndexCss_written_other written_append)

subsection \<open>Failures that are only reported\<close>

lemma continueSetup_keeps: "x \<in> set tr \<Longrightarrow> x \<in> set (fst (continueSetup e d tr))"
  by (simp add: continueSetup_def execCommand_def Let_def)

lemma executeGitInitialization_keeps:
  "x \<in> set tr \<Longrightarrow> x \<in> set (fst (executeGitInitialization e d tr))"
  by (simp add: executeGitInitialization_def execCommand_def Let_def continueSetup_keeps)

lemma promptUser_keeps: "x \<in> set tr \<Longrightarrow> x \<in> set (fst (promptUser e d tr))"
  by (simp add: promptUser_def Let_def executeGitInitialization_keeps continueSetup_keeps)

lemma updateIndexCss_keeps:
  "x \<in> set tr \<Longrightarrow> x \<in> set (fst (updateIndexCss e d (Some (promptUser e d)) tr))"
  by (simp add: updateIndexCss_def Let_def promptUser_keeps split: option.split)

lemma updateTailwindConfig_keeps:
  "x \<in> set tr \<Longrightarrow> x \<in> set (fst (updateTailwindConfig e d (Some (promptUser e d)) tr))"
  by (simp add: updateTailwindConfig_def Let_def updateIndexCss_keeps split: option.split)

lemma executeTailwindInitialization_keeps:
  "x \<in> set tr \<Longrightarrow>
     x \<in> set (fst (executeTailwindInitialization e d (Some (promptUser e d)) tr))"
  by (simp add: executeTailwindInitialization_def execCommand_def Let_def
      updateTailwindConfig_keeps)

lemma main_reports_create_project:
  "argv2 e = Some d \<Longrightarrow> d \<noteq> [] \<Longrightarrow> \<not> execSync_ok e (RUN_COMMAND d INSTALL_VITE_TS) \<Longrightarrow>
     Stderr FailedCreateProject \<in> set (fst (main e))"
  by (simp add: main_def execCommand_def Let_def executeTailwindInitialization_keeps)

lemma main_reports_install_tailwind:
  "argv2 e = Some d \<Longrightarrow> d \<noteq> [] \<Longrightarrow> \<not> execSync_ok e (RUN_COMMAND d INSTALL_TAILWIND) \<Longrightarrow>
     Stderr FailedInstallTailwind \<in> set (fst (main e))"
  by (simp add: main_def execCommand_def Let_def executeTailwindInitialization_keeps)

lemma continueSetup_reports:
  "\<not> execSync_ok e (RUN_COMMAND d INSTALL_DEPENDENCIES) \<Longrightarrow>
     Stderr FailedInstallDependencies \<in> set (fst (continueSetup e d tr))"
  by (simp add: continueSetup_def execCommand_def Let_def)

lemma executeGitInitialization_reports:
  "snd (executeGitInitialization e d tr) = Exited 0 \<Longrightarrow>
   \<not> execSync_ok e (RUN_COMMAND d INSTALL_DEPENDENCIES) \<Longrightarrow>
     Stderr FailedInstallDependencies \<in> set (fst (executeGitInitialization e d tr))"
  by (simp add: executeGitInitialization_def execCommand_def Let_def continueSetup_reports
      split: if_splits)

lemma promptUser_reports:
  "snd (promptUser e d tr) = Exited 0 \<Longrightarrow>
   \<not> execSync_ok e (RUN_COMMAND d INSTALL_DEPENDENCIES) \<Longrightarrow>
     Stderr FailedInstallDependencies \<in> set (fst (promptUser e d tr))"
  by (simp add: promptUser_def Let_def executeGitInitialization_reports continueSetup_reports
      split: if_splits)

lemma updateIndexCss_reports:
  "snd (updateIndexCss e d (Some (promptUser e d)) tr) = Exited 0 \<Longrightarrow>
   \<not> execSync_ok e (RUN_COMMAND d INSTALL_DEPENDENCIES) \<Longrightarrow>
     Stderr FailedInstallDependencies
       \<in> set (fst (updateIndexCss e d (Some (promptUser e d)) tr))"
  by (simp add: updateIndexCss_def Let_def promptUser_reports split: option.splits if_splits)

lemma updateTailwindConfig_reports:
  "snd (updateTailwindConfig e d (Some (promptUser e d)) tr) = Exited 0 \<Longrightarrow>
   \<not> execSync_ok e (RUN_COMMAND d INSTALL_DEPENDENCIES) \<Longrightarrow>
     Stderr FailedInstallDependencies
       \<in> set (fst (updateTailwindConfig e d (Some (promptUser e d)) tr))"
  by (simp add: updateTailwindConfig_def Let_def updateIndexCss_reports
      split: option.splits if_splits)

lemma executeTailwindInitialization_reports:
  "snd (executeTailwindInitialization e d (Some (promptUser e d)) tr) = Exited 0 \<Longrightarrow>
   \<not> execSync_ok e (RUN_COMMAND d INSTALL_DEPENDENCIES) \<Longrightarrow>
     Stderr FailedInstallDependencies
       \<in> set (fst (executeTailwindInitialization e d (Some (promptUser e d)) tr))"
  by (simp add: executeTailwindInitialization_def execCommand_def Let_def
      updateTailwindConfig_reports split: if_splits)

lemma main_reports_install_dependencies:
  "argv2 e = Some d \<Longrightarrow> snd (main e) = Exited 0 \<Longrightarrow>
   \<not> execSync_ok e (RUN_COMMAND d INSTALL_DEPENDENCIES) \<Longrightarrow>
     Stderr FailedInstallDependencies \<in> set (fst (main e))"
  by (auto simp add: main_def execCommand_def Let_def executeTailwindInitialization_reports
      split: if_splits)

section \<open>The claims\<close>

text \<open>
  C5. For every invocation whose first positional argument is missing or empty, the
  program prints the usage message and exits with status -1; no external command is run
  and no file is read or written.
\<close>

theorem missing_argument_exits:
  assumes "argv2 e = None \<or> argv2 e = Some []"
  shows "main e = ([Stdout PleaseEnterDirName], Exited (- 1))
    \<and> exit_status (snd (main e)) \<noteq> 0
    \<and> execs (fst (main e)) = [] \<and> file_ops (fst (main e)) = []"
  using assms by (auto simp: main_def)

theorem missing_argument_exits_witness:
  "(argv2 (sample_env None (\<lambda>c. True) []) = None
      \<or> argv2 (sample_env None (\<lambda>c. True) []) = Some [])
   \<and> main (sample_env None (\<lambda>c. True) []) = ([Stdout PleaseEnterDirName], Exited (- 1))
   \<and> main (sample_env (Some (js '''')) (\<lambda>c. True) []) =
       ([Stdout PleaseEnterDirName], Exited (- 1))"
  using missing_argument_exits [of "sample_env None (\<lambda>c. True) []"]
    missing_argument_exits [of "sample_env (Some (js '''')) (\<lambda>c. True) []"]
  by (simp add: sample_env_def js_def)

text \<open>
  C4. For every run in which the styling-config initialization command fails, the run
  ends with status -1, no file is read or written (neither patch is applied), and the
  prompt is never issued.
\<close>

theorem tailwind_init_failure_fatal:
  assumes "argv2 e = Some d" and "d \<noteq> []"
    and "\<not> execSync_ok e (RUN_COMMAND d INITIALIZE_TAILWIND)"
  shows "snd (main e) = Exited (- 1) \<and> exit_status (snd (main e)) \<noteq> 0
    \<and> file_ops (fst (main e)) = [] \<and> prompts (fst (main e)) = 0
    \<and> last (fst (main e)) = Stderr FailedInitTailwind"
  using assms
  by (simp add: main_def executeTailwindInitialization_def execCommand_def Let_def)

theorem tailwind_init_failure_fatal_witness:
  "argv2 (sample_env (Some (js ''app''))
       (all_but (RUN_COMMAND (js ''app'') INITIALIZE_TAILWIND)) (js ''y'')) = Some (js ''app'')
   \<and> js ''app'' \<noteq> []
   \<and> \<not> execSync_ok (sample_env (Some (js ''app''))
           (all_but (RUN_COMMAND (js ''app'') INITIALIZE_TAILWIND)) (js ''y''))
         (RUN_COMMAND (js ''app'') INITIALIZE_TAILWIND)
   \<and> snd (main (sample_env (Some (js ''app''))
           (all_but (RUN_COMMAND (js ''app'') INITIALIZE_TAILWIND)) (js ''y''))) = Exited (- 1)
   \<and> file_ops (fst (main (sample_env (Some (js ''app''))
           (all_but (RUN_COMMAND (js ''app'') INITIALIZE_TAILWIND)) (js ''y'')))) = []
   \<and> prompts (fst (main (sample_env (Some (js ''app''))
           (all_but (RUN_COMMAND (js ''app'') INITIALIZE_TAILWIND)) (js ''y'')))) = 0"
proof -
  let ?e = "sample_env (Some (js ''app''))
    (all_but (RUN_COMMAND (js ''app'') INITIALIZE_TAILWIND)) (js ''y'')"
  have a: "argv2 ?e = Some (js ''app'')" by (simp add: sample_env_def)
  have b: "js ''app'' \<noteq> []" by (simp add: js_def)
  have c: "\<not> execSync_ok ?e (RUN_COMMAND (js ''app'') INITIALIZE_TAILWIND)"
    by (simp add: sample_env_def all_but_def)
  from tailwind_init_failure_fatal [OF a b c] a b c show ?thesis by simp
qed

text \<open>
  \<^verbatim>\<open>executeGitInitialization\<close> does not read the reply: it runs the same whatever the
  user entered.
\<close>

lemma continueSetup_answer:
  "continueSetup (e\<lparr>answer := r\<rparr>) d tr = continueSetup e d tr"
  by (simp add: continueSetup_def execCommand_def Let_def)

lemma executeGitInitialization_answer:
  "executeGitInitialization (e\<lparr>answer := r\<rparr>) d tr = executeGitInitialization e d tr"
  by (simp add: executeGitInitialization_def execCommand_def Let_def continueSetup_answer)

text \<open>
  C10. The reply is trimmed before it is interpreted: for every reply made of whitespace
  only, and for every reply that is \<^verbatim>\<open>y\<close> or \<^verbatim>\<open>Y\<close> surrounded by whitespace,
  \<^verbatim>\<open>promptUser\<close> closes the prompt and goes on with \<^verbatim>\<open>executeGitInitialization\<close>: the
  version-control initialization branch is selected, exactly as for the empty reply.
\<close>

theorem reply_is_trimmed:
  assumes "\<forall>c\<in>set a. is_ws c" and "\<forall>c\<in>set b. is_ws c"
  shows "shouldInitializeGit a \<and> shouldInitializeGit (js '''')
    \<and> shouldInitializeGit (a @ js ''y'' @ b) \<and> shouldInitializeGit (a @ js ''Y'' @ b)
    \<and> promptUser (e\<lparr>answer := a\<rparr>) d tr =
        executeGitInitialization e d (tr @ [Stdout EmptyLine, Question, RlClose])
    \<and> promptUser (e\<lparr>answer := a @ js ''y'' @ b\<rparr>) d tr =
        executeGitInitialization e d (tr @ [Stdout EmptyLine, Question, RlClose])
    \<and> promptUser (e\<lparr>answer := a @ js ''Y'' @ b\<rparr>) d tr =
        executeGitInitialization e d (tr @ [Stdout EmptyLine, Question, RlClose])
    \<and> promptUser (e\<lparr>answer := js ''''\<rparr>) d tr =
        executeGitInitialization e d (tr @ [Stdout EmptyLine, Question, RlClose])"
proof -
  have "trim a = []" using assms(1) by (rule trim_all_ws)
  moreover have "trim (js '''') = []" by (simp add: trim_def js_def)
  moreover have "trim (a @ js ''y'' @ b) = js ''y''"
    using trim_padded [OF assms, of "0x79"] by (simp add: js_def is_ws_def)
  moreover have "trim (a @ js ''Y'' @ b) = js ''Y''"
    using trim_padded [OF assms, of "0x59"] by (simp add: js_def is_ws_def)
  ultimately have yes: "shouldInitializeGit a" "shouldInitializeGit (js '''')"
    "shouldInitializeGit (a @ js ''y'' @ b)" "shouldInitializeGit (a @ js ''Y'' @ b)"
    by (simp_all add: shouldInitializeGit_iff) (simp_all add: js_def)
  have branch: "promptUser (e\<lparr>answer := r\<rparr>) d tr =
      executeGitInitialization e d (tr @ [Stdout EmptyLine, Question, RlClose])"
    if "shouldInitializeGit r" for r
    using that by (simp add: promptUser_def Let_def executeGitInitialization_answer)
  from yes branch show ?thesis by blast
qed

theorem reply_is_trimmed_witness:
  "list_all is_ws (js ''  '') \<and> list_all is_ws [0x09]
   \<and> shouldInitializeGit (js ''  '') \<and> shouldInitializeGit (js ''  '' @ js ''Y'' @ [0x09])
   \<and> promptUser (sample_env (Some (js ''app'')) (\<lambda>c. True) (js ''  '' @ js ''Y'' @ [0x09]))
        (js ''app'') [] =
      executeGitInitialization (sample_env (Some (js ''app'')) (\<lambda>c. True) (js ''n''))
        (js ''app'') [Stdout EmptyLine, Question, RlClose]
   \<and> execs (fst (promptUser
        (sample_env (Some (js ''app'')) (\<lambda>c. True) (js ''  '' @ js ''Y'' @ [0x09]))
        (js ''app'') [])) =
      [RUN_COMMAND (js ''app'') INITIALIZE_GIT, RUN_COMMAND (js ''app'') CHANGE_BRANCH,
       RUN_COMMAND (js ''app'') INSTALL_DEPENDENCIES]"
proof -
  let ?e = "sample_env (Some (js ''app'')) (\<lambda>c. True) (js ''n'')"
  have a: "\<forall>c\<in>set (js ''  ''). is_ws c" by (simp add: js_def is_ws_def)
  have b: "\<forall>c\<in>set [0x09]. is_ws c" by (simp add: is_ws_def)
  have u: "?e\<lparr>answer := js ''  '' @ js ''Y'' @ [0x09]\<rparr> =
      sample_env (Some (js ''app'')) (\<lambda>c. True) (js ''  '' @ js ''Y'' @ [0x09])"
    by (simp add: sample_env_def)
  have x: "execs (fst (executeGitInitialization ?e (js ''app'')
        [Stdout EmptyLine, Question, RlClose])) =
      [RUN_COMMAND (js ''app'') INITIALIZE_GIT, RUN_COMMAND (js ''app'') CHANGE_BRANCH,
       RUN_COMMAND (js ''app'') INSTALL_DEPENDENCIES]"
    by (simp add: executeGitInitialization_def continueSetup_def execCommand_def
        sample_env_def Let_def)
  from reply_is_trimmed [OF a b, of ?e "js ''app''" "[]"] a b u x show ?thesis
    by (simp add: list_all_iff)
qed

text \<open>
  C9 (as amended). The replies \<^verbatim>\<open>""\<close>, \<^verbatim>\<open>"y"\<close> and \<^verbatim>\<open>"Y"\<close> select the version-control
  initialization and \<^verbatim>\<open>"n"\<close> selects the skip branch; in general a reply selects the
  initialization exactly when its trimmed form is one of those three, and the skip branch
  otherwise. The prompt is issued at most once in a run.
\<close>

theorem prompt_reply_branches:
  "(shouldInitializeGit r \<longleftrightarrow> trim r = js '''' \<or> trim r = js ''y'' \<or> trim r = js ''Y'')
   \<and> shouldInitializeGit (js '''') \<and> shouldInitializeGit (js ''y'')
   \<and> shouldInitializeGit (js ''Y'') \<and> \<not> shouldInitializeGit (js ''n'')
   \<and> promptUser e d tr =
       (if trim (answer e) = js '''' \<or> trim (answer e) = js ''y'' \<or> trim (answer e) = js ''Y''
        then executeGitInitialization e d (tr @ [Stdout EmptyLine, Question, RlClose])
        else continueSetup e d (tr @ [Stdout EmptyLine, Question, RlClose, Stdout SkippedGit]))
   \<and> prompts (fst (main e)) \<le> 1"
proof -
  have "trim (js '''') = js ''''" "trim (js ''y'') = js ''y''" "trim (js ''Y'') = js ''Y''"
    "trim (js ''n'') = js ''n''"
    by (simp_all add: trim_def js_def is_ws_def)
  then have "shouldInitializeGit (js '''')" "shouldInitializeGit (js ''y'')"
    "shouldInitializeGit (js ''Y'')" "\<not> shouldInitializeGit (js ''n'')"
    by (simp_all add: shouldInitializeGit_iff) (simp_all add: js_def)
  moreover have "promptUser e d tr =
       (if trim (answer e) = js '''' \<or> trim (answer e) = js ''y'' \<or> trim (answer e) = js ''Y''
        then executeGitInitialization e d (tr @ [Stdout EmptyLine, Question, RlClose])
        else continueSetup e d (tr @ [Stdout EmptyLine, Question, RlClose, Stdout SkippedGit]))"
    using shouldInitializeGit_iff [of "answer e"] by (simp add: promptUser_def Let_def)
  ultimately show ?thesis
    using shouldInitializeGit_iff [of r] main_prompts [of e] by blast
qed

theorem prompt_reply_branches_witness:
  "shouldInitializeGit (js ''Y'') \<and> \<not> shouldInitializeGit (js ''no'')
   \<and> trim (js '' no '') = js ''no''"
  using prompt_reply_branches [of "js '' no ''"] prompt_reply_branches [of "js ''no''"]
  by (simp add: trim_def js_def is_ws_def)

text \<open>
  The claim as first stated sends every reply other than \<^verbatim>\<open>""\<close>, \<^verbatim>\<open>"y"\<close> and \<^verbatim>\<open>"Y"\<close> to
  the skip branch. The reply \<^verbatim>\<open>" y "\<close> is none of the three and selects the initialization:
  \<^verbatim>\<open>git init\<close> is the first command run after the prompt.
\<close>

theorem padded_reply_counterexample:
  "js '' y '' \<noteq> js '''' \<and> js '' y '' \<noteq> js ''y'' \<and> js '' y '' \<noteq> js ''Y''
   \<and> shouldInitializeGit (js '' y '')
   \<and> execs (fst (promptUser (sample_env (Some (js ''app'')) (\<lambda>c. True) (js '' y ''))
        (js ''app'') [])) =
       [RUN_COMMAND (js ''app'') INITIALIZE_GIT, RUN_COMMAND (js ''app'') CHANGE_BRANCH,
        RUN_COMMAND (js ''app'') INSTALL_DEPENDENCIES]"
  by (simp add: shouldInitializeGit_def trim_def toLowerCase_def lower_unit_def is_ws_def
      js_def promptUser_def executeGitInitialization_def continueSetup_def execCommand_def
      sample_env_def Let_def)

text \<open>
  C6. For every content of the configuration file, the config patch hands back to the file
  the content in which the leftmost occurrence of the pattern \<^verbatim>\<open>content: []\<close> is replaced by
  the two-element list; a content without the pattern is written back as it is (the file
  is rewritten all the same). Every content with the pattern has such a leftmost
  occurrence. A read error or a write error ends the run with status -1.
\<close>

theorem config_patch:
  "(let U = updateTailwindConfig e d (Some (promptUser e d)) tr in
    (readFileSync e (config_path d) = None \<longrightarrow>
       snd U = Exited (- 1) \<and> written (config_path d) (fst U) = written (config_path d) tr)
    \<and> (\<forall>data. readFileSync e (config_path d) = Some data \<longrightarrow>
         (\<not> writeFileSync_ok e (config_path d) \<longrightarrow> snd U = Exited (- 1))
       \<and> (\<not> occurs content_pattern data \<longrightarrow>
            written (config_path d) (fst U) = written (config_path d) tr @ [data])
       \<and> (\<forall>pre post. data = pre @ content_pattern @ post
              \<and> \<not> occurs content_pattern (pre @ butlast content_pattern) \<longrightarrow>
            written (config_path d) (fst U) =
              written (config_path d) tr @ [pre @ content_replacement @ post])
       \<and> (occurs content_pattern data \<longrightarrow>
            (\<exists>pre post. data = pre @ content_pattern @ post
              \<and> \<not> occurs content_pattern (pre @ butlast content_pattern)))))"
proof -
  let ?U = "updateTailwindConfig e d (Some (promptUser e d)) tr"
  have none: "readFileSync e (config_path d) = None \<Longrightarrow>
      snd ?U = Exited (- 1) \<and> written (config_path d) (fst ?U) = written (config_path d) tr"
    by (simp add: updateTailwindConfig_def Let_def written_append)
  have fail: "\<not> writeFileSync_ok e (config_path d) \<Longrightarrow> snd ?U = Exited (- 1)"
    by (simp add: updateTailwindConfig_outcome patches_succeed_def)
  have same: "written (config_path d) (fst ?U) = written (config_path d) tr @ [data]"
    if "readFileSync e (config_path d) = Some data" and "\<not> occurs content_pattern data"
    for data
    using that
    by (simp add: updateTailwindConfig_written updatedContent_config_def
        replace_js_no_occurrence)
  have first: "written (config_path d) (fst ?U) =
      written (config_path d) tr @ [pre @ content_replacement @ post]"
    if "readFileSync e (config_path d) = Some data" and "data = pre @ content_pattern @ post"
      and "\<not> occurs content_pattern (pre @ butlast content_pattern)"
    for data pre post
    using that
    by (simp add: updateTailwindConfig_written updatedContent_config_def
        replace_js_first [OF pattern_nonempty])
  have ex: "occurs content_pattern data \<Longrightarrow>
      \<exists>pre post. data = pre @ content_pattern @ post
        \<and> \<not> occurs content_pattern (pre @ butlast content_pattern)" for data
    by (rule first_occurrence_exists [OF pattern_nonempty])
  show ?thesis
    unfolding Let_def using none fail same first ex by blast
qed

theorem config_patch_witness:
  "readFileSync (sample_env (Some (js ''app'')) (\<lambda>c. True) (js ''n'')) (config_path (js ''app''))
     = Some (js ''export default { '' @ content_pattern @ js '', theme: {} }'')
   \<and> \<not> occurs content_pattern (js ''export default { '' @ butlast content_pattern)
   \<and> written (config_path (js ''app''))
       (fst (updateTailwindConfig (sample_env (Some (js ''app'')) (\<lambda>c. True) (js ''n''))
          (js ''app'')
          (Some (promptUser (sample_env (Some (js ''app'')) (\<lambda>c. True) (js ''n'')) (js ''app'')))
          []))
     = [js ''export default { '' @ content_replacement @ js '', theme: {} }'']"
proof -
  let ?e = "sample_env (Some (js ''app'')) (\<lambda>c. True) (js ''n'')"
  have r: "readFileSync ?e (config_path (js ''app''))
      = Some (js ''export default { '' @ content_pattern @ js '', theme: {} }'')"
    by (simp add: sample_env_def sample_files_def sample_config_def content_pattern_def js_def)
  have n: "\<not> occurs content_pattern (js ''export default { '' @ butlast content_pattern)"
    by (simp add: content_pattern_def js_def)
  from config_patch [of ?e "js ''app''" "[]"] r n show ?thesis
    unfolding Let_def by force
qed

text \<open>
  C7 (as amended). For every content in which the pattern occurs at most once, patching
  twice equals patching once: the patched content holds no occurrence of the pattern, and
  the replacement text itself does not match it.
\<close>

theorem config_patch_twice:
  assumes "occurrences content_pattern data \<le> 1"
  shows "updatedContent_config (updatedContent_config data) = updatedContent_config data
    \<and> \<not> occurs content_pattern (updatedContent_config data)
    \<and> \<not> occurs content_pattern content_replacement"
proof -
  have "\<not> occurs content_pattern (updatedContent_config data)"
    using assms by (simp add: updatedContent_config_def replace_removes_single)
  moreover from this
  have "updatedContent_config (updatedContent_config data) = updatedContent_config data"
    by (simp add: updatedContent_config_def replace_js_no_occurrence)
  moreover have "\<not> occurs content_pattern content_replacement"
    using no_match_in_replacement [of "[]"] by (simp add: pattern_nonempty)
  ultimately show ?thesis by simp
qed

theorem config_patch_twice_witness:
  \<open>occurrences content_pattern sample_config \<le> 1
   \<and> updatedContent_config (updatedContent_config sample_config) =
       js ''export default { content: ["./index.html", "./src/**/*.{js,ts,jsx,tsx}"], theme: {} }''\<close>
proof -
  have a: "occurrences content_pattern sample_config \<le> 1"
    by (simp add: sample_config_def content_pattern_def js_def)
  have \<open>updatedContent_config sample_config =
      js ''export default { content: ["./index.html", "./src/**/*.{js,ts,jsx,tsx}"], theme: {} }''\<close>
    by (simp add: updatedContent_config_def sample_config_def content_pattern_def
        content_replacement_def js_def)
  with config_patch_twice [OF a] a show ?thesis by simp
qed

text \<open>
  The claim as first stated holds for every content. A content with two occurrences of the
  pattern loses one at each application, so the second application changes it again.
\<close>

theorem second_occurrence_counterexample:
  "updatedContent_config (updatedContent_config (js ''content: [], content: []''))
     \<noteq> updatedContent_config (js ''content: [], content: []'')"
  by (simp add: updatedContent_config_def content_pattern_def content_replacement_def js_def)

text \<open>
  C8. For every content of the stylesheet, the stylesheet patch hands to the file the
  three import lines (base, components, utilities), one empty line and then the content it
  read, unchanged. Nothing guards the prepend: applied to its own result, it puts the
  directives in front once more.
\<close>

theorem stylesheet_patch:
  assumes "readFileSync e (index_css_path d) = Some data"
  shows "written (index_css_path d) (fst (updateIndexCss e d (Some (promptUser e d)) tr)) =
      written (index_css_path d) tr @
        [js ''@import 'tailwindcss/base';'' @ [0x0A] @
         js ''@import 'tailwindcss/components';'' @ [0x0A] @
         js ''@import 'tailwindcss/utilities';'' @ [0x0A] @ [0x0A] @ data]
    \<and> updatedContent_css (updatedContent_css data) =
        tailwind_directives @ tailwind_directives @ data"
  using assms
  by (simp add: updateIndexCss_written updatedContent_css_def tailwind_directives_def js_def)

theorem stylesheet_patch_witness:
  "readFileSync (sample_env (Some (js ''app'')) (\<lambda>c. True) (js ''n''))
      (index_css_path (js ''app'')) = Some (js ''body{}'')
   \<and> written (index_css_path (js ''app''))
       (fst (updateIndexCss (sample_env (Some (js ''app'')) (\<lambda>c. True) (js ''n''))
          (js ''app'')
          (Some (promptUser (sample_env (Some (js ''app'')) (\<lambda>c. True) (js ''n'')) (js ''app'')))
          []))
     = [js ''@import 'tailwindcss/base';\<newline>@import 'tailwindcss/components';\<newline>@import 'tailwindcss/utilities';\<newline>\<newline>body{}'']"
proof -
  let ?e = "sample_env (Some (js ''app'')) (\<lambda>c. True) (js ''n'')"
  have r: "readFileSync ?e (index_css_path (js ''app'')) = Some (js ''body{}'')"
    by (simp add: sample_env_def sample_files_def index_css_path_def config_path_def js_def)
  from stylesheet_patch [OF r, of "[]"] r show ?thesis
    by (simp add: js_def)
qed

text \<open>
  C1 (as amended). Exactly four conditions end a run with status -1: a missing directory
  name, a failure of the styling-config initialization command, a read or write error of a
  file patch, and a failure of the version-control initialization command. A run that ends
  so prints no completion banner. A failure of create-project, of install-styling-deps or
  of install-deps is only reported on the console: whatever these three commands do, a run
  without one of the four conditions (and without a failing branch rename) ends with the
  completion banner and status 0.
\<close>

theorem fatal_conditions:
  "(snd (main e) = Exited (- 1) \<longleftrightarrow> fatal_condition e)
   \<and> (fatal_condition e \<longrightarrow> Stdout SuccessBanner \<notin> set (fst (main e)))
   \<and> (\<not> fatal_condition e \<and> \<not> rename_attempt_fails e \<longrightarrow>
        snd (main e) = Exited 0 \<and> last (fst (main e)) = Stdout SuccessBanner)
   \<and> (\<forall>d. argv2 e = Some d \<and> d \<noteq> [] \<longrightarrow>
        (\<not> execSync_ok e (RUN_COMMAND d INSTALL_VITE_TS) \<longrightarrow>
           Stderr FailedCreateProject \<in> set (fst (main e)))
      \<and> (\<not> execSync_ok e (RUN_COMMAND d INSTALL_TAILWIND) \<longrightarrow>
           Stderr FailedInstallTailwind \<in> set (fst (main e)))
      \<and> (snd (main e) = Exited 0 \<and> \<not> execSync_ok e (RUN_COMMAND d INSTALL_DEPENDENCIES) \<longrightarrow>
           Stderr FailedInstallDependencies \<in> set (fst (main e))))"
proof -
  have fatal: "snd (main e) = Exited (- 1) \<longleftrightarrow> fatal_condition e"
    by (auto simp add: main_outcome fatal_condition_def promptUser_outcome
        executeGitInitialization_outcome simp del: RUN_COMMAND.simps split: option.split)
  have ok: "snd (main e) = Exited 0" if "\<not> fatal_condition e" "\<not> rename_attempt_fails e"
    using that
    by (auto simp add: main_outcome fatal_condition_def rename_attempt_fails_def
        promptUser_outcome executeGitInitialization_outcome simp del: RUN_COMMAND.simps
        split: option.splits)
  have "Stdout SuccessBanner \<notin> set (fst (main e))" if "fatal_condition e"
    using that fatal by (simp add: main_banner)
  moreover have "last (fst (main e)) = Stdout SuccessBanner"
    if "\<not> fatal_condition e" "\<not> rename_attempt_fails e"
    using ok [OF that] by (rule main_last)
  ultimately show ?thesis
    using fatal ok main_reports_create_project [of e] main_reports_install_tailwind [of e]
      main_reports_install_dependencies [of e]
    by blast
qed

theorem fatal_conditions_witness:
  "fatal_condition (sample_env (Some (js ''app''))
       (all_but (RUN_COMMAND (js ''app'') INITIALIZE_TAILWIND)) (js ''n''))
   \<and> snd (main (sample_env (Some (js ''app''))
       (all_but (RUN_COMMAND (js ''app'') INITIALIZE_TAILWIND)) (js ''n''))) = Exited (- 1)
   \<and> \<not> fatal_condition (sample_env (Some (js ''app''))
       (\<lambda>c. c = RUN_COMMAND (js ''app'') INITIALIZE_TAILWIND) (js ''n''))
   \<and> \<not> rename_attempt_fails (sample_env (Some (js ''app''))
       (\<lambda>c. c = RUN_COMMAND (js ''app'') INITIALIZE_TAILWIND) (js ''n''))
   \<and> \<not> execSync_ok (sample_env (Some (js ''app''))
         (\<lambda>c. c = RUN_COMMAND (js ''app'') INITIALIZE_TAILWIND) (js ''n''))
       (RUN_COMMAND (js ''app'') INSTALL_VITE_TS)
   \<and> snd (main (sample_env (Some (js ''app''))
       (\<lambda>c. c = RUN_COMMAND (js ''app'') INITIALIZE_TAILWIND) (js ''n''))) = Exited 0
   \<and> last (fst (main (sample_env (Some (js ''app''))
       (\<lambda>c. c = RUN_COMMAND (js ''app'') INITIALIZE_TAILWIND) (js ''n''))))
     = Stdout SuccessBanner
   \<and> Stderr FailedCreateProject \<in> set (fst (main (sample_env (Some (js ''app''))
       (\<lambda>c. c = RUN_COMMAND (js ''app'') INITIALIZE_TAILWIND) (js ''n''))))"
proof -
  let ?e1 = "sample_env (Some (js ''app''))
    (all_but (RUN_COMMAND (js ''app'') INITIALIZE_TAILWIND)) (js ''n'')"
  let ?e2 = "sample_env (Some (js ''app''))
    (\<lambda>c. c = RUN_COMMAND (js ''app'') INITIALIZE_TAILWIND) (js ''n'')"
  have f1: "fatal_condition ?e1"
    by (simp add: fatal_condition_def sample_env_def all_but_def js_def)
  have n: "\<not> shouldInitializeGit (js ''n'')"
    by (simp add: shouldInitializeGit_def trim_def toLowerCase_def lower_unit_def is_ws_def
        js_def)
  have p: "patches_succeed ?e2 (js ''app'')"
    by (simp add: patches_succeed_def sample_env_def sample_files_def paths_differ)
  have f2: "\<not> fatal_condition ?e2"
    using n p by (simp add: fatal_condition_def sample_env_def) (simp add: js_def)
  have r2: "\<not> rename_attempt_fails ?e2"
    using n by (simp add: rename_attempt_fails_def sample_env_def)
  have a2: "argv2 ?e2 = Some (js ''app'') \<and> js ''app'' \<noteq> []"
    by (simp add: sample_env_def js_def)
  have v2: "\<not> execSync_ok ?e2 (RUN_COMMAND (js ''app'') INSTALL_VITE_TS)"
    by (simp add: sample_env_def js_def)
  from fatal_conditions [of ?e1] fatal_conditions [of ?e2] f1 f2 r2 a2 v2
  show ?thesis by blast
qed

text \<open>
  The claim as first stated counts three fatal conditions and has a failure of the
  version-control initialization command only reported. In this run the directory name is
  given, the styling-config command succeeds and both patches go through; \<^verbatim>\<open>git init\<close>
  fails after the default reply, and the run ends with status -1 and no banner.
\<close>

theorem fourth_fatal_condition_counterexample:
  "argv2 (sample_env (Some (js ''app''))
       (all_but (RUN_COMMAND (js ''app'') INITIALIZE_GIT)) (js '''')) = Some (js ''app'')
   \<and> execSync_ok (sample_env (Some (js ''app''))
         (all_but (RUN_COMMAND (js ''app'') INITIALIZE_GIT)) (js ''''))
       (RUN_COMMAND (js ''app'') INITIALIZE_TAILWIND)
   \<and> patches_succeed (sample_env (Some (js ''app''))
         (all_but (RUN_COMMAND (js ''app'') INITIALIZE_GIT)) (js '''')) (js ''app'')
   \<and> snd (main (sample_env (Some (js ''app''))
         (all_but (RUN_COMMAND (js ''app'') INITIALIZE_GIT)) (js ''''))) = Exited (- 1)
   \<and> Stdout SuccessBanner \<notin> set (fst (main (sample_env (Some (js ''app''))
         (all_but (RUN_COMMAND (js ''app'') INITIALIZE_GIT)) (js ''''))))"
  by (simp add: main_def executeTailwindInitialization_def updateTailwindConfig_def
      updateIndexCss_def promptUser_def executeGitInitialization_def execCommand_def
      shouldInitializeGit_def trim_def toLowerCase_def lower_unit_def is_ws_def
      patches_succeed_def sample_env_def sample_files_def all_but_def
      config_path_def index_css_path_def js_def Let_def)

text \<open>
  C2 (as amended). For every run in which the version-control initialization command is
  run and fails, whatever the other commands do, the orchestrator reports the failure and
  ends with status -1: neither the branch rename nor the dependency installation is run,
  and the completion banner is not printed.
\<close>

theorem git_init_failure_exits:
  assumes "argv2 e = Some d" and "d \<noteq> []"
    and "execSync_ok e (RUN_COMMAND d INITIALIZE_TAILWIND)"
    and "patches_succeed e d"
    and "shouldInitializeGit (answer e)"
    and "\<not> execSync_ok e (RUN_COMMAND d INITIALIZE_GIT)"
  shows "snd (main e) = Exited (- 1) \<and> exit_status (snd (main e)) \<noteq> 0
    \<and> last (fst (main e)) = Stderr FailedInitGit
    \<and> Stdout SuccessBanner \<notin> set (fst (main e))
    \<and> execs (fst (main e)) =
        [RUN_COMMAND d INSTALL_VITE_TS, RUN_COMMAND d INSTALL_TAILWIND,
         RUN_COMMAND d INITIALIZE_TAILWIND, RUN_COMMAND d INITIALIZE_GIT]"
proof -
  from assms(4) obtain cfg css where
    "readFileSync e (config_path d) = Some cfg" "writeFileSync_ok e (config_path d)"
    "readFileSync e (index_css_path d) = Some css" "writeFileSync_ok e (index_css_path d)"
    by (auto simp: patches_succeed_def)
  with assms(1,2,3,5,6) show ?thesis
    by (simp add: main_def executeTailwindInitialization_def updateTailwindConfig_def
        updateIndexCss_def promptUser_def executeGitInitialization_def execCommand_def
        Let_def execs_append del: RUN_COMMAND.simps)
qed

theorem git_init_failure_exits_witness:
  "argv2 (sample_env (Some (js ''app''))
       (all_but (RUN_COMMAND (js ''app'') INITIALIZE_GIT)) (js ''Y'')) = Some (js ''app'')
   \<and> shouldInitializeGit (answer (sample_env (Some (js ''app''))
       (all_but (RUN_COMMAND (js ''app'') INITIALIZE_GIT)) (js ''Y'')))
   \<and> \<not> execSync_ok (sample_env (Some (js ''app''))
         (all_but (RUN_COMMAND (js ''app'') INITIALIZE_GIT)) (js ''Y''))
       (RUN_COMMAND (js ''app'') INITIALIZE_GIT)
   \<and> snd (main (sample_env (Some (js ''app''))
         (all_but (RUN_COMMAND (js ''app'') INITIALIZE_GIT)) (js ''Y''))) = Exited (- 1)
   \<and> last (fst (main (sample_env (Some (js ''app''))
         (all_but (RUN_COMMAND (js ''app'') INITIALIZE_GIT)) (js ''Y''))))
     = Stderr FailedInitGit"
proof -
  let ?e = "sample_env (Some (js ''app''))
    (all_but (RUN_COMMAND (js ''app'') INITIALIZE_GIT)) (js ''Y'')"
  have a: "argv2 ?e = Some (js ''app'')" by (simp add: sample_env_def)
  have b: "js ''app'' \<noteq> []" by (simp add: js_def)
  have c: "execSync_ok ?e (RUN_COMMAND (js ''app'') INITIALIZE_TAILWIND)"
    by (simp add: sample_env_def all_but_def js_def)
  have p: "patches_succeed ?e (js ''app'')"
    by (simp add: patches_succeed_def sample_env_def sample_files_def paths_differ)
  have y: "shouldInitializeGit (answer ?e)"
    by (simp add: sample_env_def shouldInitializeGit_def trim_def toLowerCase_def
        lower_unit_def is_ws_def js_def)
  have g: "\<not> execSync_ok ?e (RUN_COMMAND (js ''app'') INITIALIZE_GIT)"
    by (simp add: sample_env_def all_but_def)
  from git_init_failure_exits [OF a b c p y g] a y g show ?thesis by simp
qed

text \<open>
  The claim as first stated has such a run reach the completion banner and status 0. Here
  \<^verbatim>\<open>git init\<close> is the one command that fails, and the run ends with status -1 before the
  banner.
\<close>

theorem git_init_failure_counterexample:
  "execSync_ok (sample_env (Some (js ''app''))
         (all_but (RUN_COMMAND (js ''app'') INITIALIZE_GIT)) (js ''y''))
       (RUN_COMMAND (js ''app'') INSTALL_VITE_TS)
   \<and> execSync_ok (sample_env (Some (js ''app''))
         (all_but (RUN_COMMAND (js ''app'') INITIALIZE_GIT)) (js ''y''))
       (RUN_COMMAND (js ''app'') INSTALL_TAILWIND)
   \<and> execSync_ok (sample_env (Some (js ''app''))
         (all_but (RUN_COMMAND (js ''app'') INITIALIZE_GIT)) (js ''y''))
       (RUN_COMMAND (js ''app'') INITIALIZE_TAILWIND)
   \<and> execSync_ok (sample_env (Some (js ''app''))
         (all_but (RUN_COMMAND (js ''app'') INITIALIZE_GIT)) (js ''y''))
       (RUN_COMMAND (js ''app'') CHANGE_BRANCH)
   \<and> execSync_ok (sample_env (Some (js ''app''))
         (all_but (RUN_COMMAND (js ''app'') INITIALIZE_GIT)) (js ''y''))
       (RUN_COMMAND (js ''app'') INSTALL_DEPENDENCIES)
   \<and> \<not> execSync_ok (sample_env (Some (js ''app''))
         (all_but (RUN_COMMAND (js ''app'') INITIALIZE_GIT)) (js ''y''))
       (RUN_COMMAND (js ''app'') INITIALIZE_GIT)
   \<and> snd (main (sample_env (Some (js ''app''))
         (all_but (RUN_COMMAND (js ''app'') INITIALIZE_GIT)) (js ''y''))) = Exited (- 1)
   \<and> exit_status (snd (main (sample_env (Some (js ''app''))
         (all_but (RUN_COMMAND (js ''app'') INITIALIZE_GIT)) (js ''y'')))) \<noteq> 0
   \<and> Stdout SuccessBanner \<notin> set (fst (main (sample_env (Some (js ''app''))
         (all_but (RUN_COMMAND (js ''app'') INITIALIZE_GIT)) (js ''y''))))"
  by (simp add: main_def executeTailwindInitialization_def updateTailwindConfig_def
      updateIndexCss_def promptUser_def executeGitInitialization_def execCommand_def
      shouldInitializeGit_def trim_def toLowerCase_def lower_unit_def is_ws_def
      sample_env_def sample_files_def all_but_def
      config_path_def index_css_path_def js_def Let_def)

text \<open>
  C3. The run in which every command succeeds but the branch rename, after the reply
  \<^verbatim>\<open>y\<close>: the failure is reported and \<^verbatim>\<open>executeGitInitialization\<close> returns without calling
  \<^verbatim>\<open>continueSetup\<close>. The dependency installation is not run and the completion banner is
  not printed; the script has nothing left to do and the process ends.
\<close>

theorem rename_failure_skips_setup:
  "snd (main (sample_env (Some (js ''app''))
         (all_but (RUN_COMMAND (js ''app'') CHANGE_BRANCH)) (js ''y''))) = Returned
   \<and> last (fst (main (sample_env (Some (js ''app''))
         (all_but (RUN_COMMAND (js ''app'') CHANGE_BRANCH)) (js ''y''))))
     = Stderr FailedChangeBranch
   \<and> execs (fst (main (sample_env (Some (js ''app''))
         (all_but (RUN_COMMAND (js ''app'') CHANGE_BRANCH)) (js ''y'')))) =
       [RUN_COMMAND (js ''app'') INSTALL_VITE_TS, RUN_COMMAND (js ''app'') INSTALL_TAILWIND,
        RUN_COMMAND (js ''app'') INITIALIZE_TAILWIND, RUN_COMMAND (js ''app'') INITIALIZE_GIT,
        RUN_COMMAND (js ''app'') CHANGE_BRANCH]
   \<and> Stdout SuccessBanner \<notin> set (fst (main (sample_env (Some (js ''app''))
         (all_but (RUN_COMMAND (js ''app'') CHANGE_BRANCH)) (js ''y''))))"
  by (simp add: main_def executeTailwindInitialization_def updateTailwindConfig_def
      updateIndexCss_def promptUser_def executeGitInitialization_def execCommand_def
      shouldInitializeGit_def trim_def toLowerCase_def lower_unit_def is_ws_def
      sample_env_def sample_files_def all_but_def
      config_path_def index_css_path_def js_def Let_def)

end
